theory Spec2Isabelle
  imports Main "HOL-Library.DAList"
begin

section \<open>The values the module imports\<close>

text \<open>
  The module \<^verbatim>\<open>definitions.py\<close> is one statement after its imports:
  \<^verbatim>\<open>
  defs = Definitions(
      assets=[dbtlearn_dbt_assets, dbtlearn_partitioned_dbt_assets],
      schedules=schedules,
      resources={
          "dbt": DbtCliResource(project_dir=os.fspath(dbt_project_dir)),
      },
  )
  \<close>
  The four names \<^verbatim>\<open>dbtlearn_dbt_assets\<close>, \<^verbatim>\<open>dbtlearn_partitioned_dbt_assets\<close>,
  \<^verbatim>\<open>schedules\<close> and \<^verbatim>\<open>dbt_project_dir\<close> come from the sibling modules
  \<^verbatim>\<open>.assets\<close>, \<^verbatim>\<open>.schedules\<close> and \<^verbatim>\<open>.constants\<close>, which are not part of the
  sources at hand: they are parameters of the model. \<^verbatim>\<open>Definitions\<close> and
  \<^verbatim>\<open>DbtCliResource\<close> are classes of the libraries dagster and dagster_dbt.
\<close>

datatype error = TypeError | NamingCollision | ConfigurationError

text \<open>
  Modelled from the spec: the asset definitions of the missing module \<^verbatim>\<open>.assets\<close>.
  An asset definition is an opaque handle to a named transformation unit; a partitioned
  asset definition is the same, tagged with a partitioning dimension.
\<close>

record asset_definition =
  asset_name :: string
  partitions_def :: "string option"

definition is_partitioned :: "asset_definition \<Rightarrow> bool" where
  "is_partitioned a = (partitions_def a \<noteq> None)"

text \<open>
  The value bound to \<^verbatim>\<open>dbt_project_dir\<close>: a \<^verbatim>\<open>str\<close>, an object implementing
  \<^verbatim>\<open>os.PathLike\<close> whose \<^verbatim>\<open>__fspath__\<close> returns the given \<^verbatim>\<open>str\<close> (a
  \<^verbatim>\<open>pathlib.Path\<close>, say), or any other object. Paths given as \<^verbatim>\<open>bytes\<close> are
  left out: the project directory is a text field.
\<close>

datatype path_value = PyStr string | PyPathLike string | PyOther

text \<open>
  \<^verbatim>\<open>os.fspath\<close> of the Python standard library: a \<^verbatim>\<open>str\<close> is returned
  unchanged, a path-like object gives the result of its \<^verbatim>\<open>__fspath__\<close>, anything else
  raises \<^verbatim>\<open>TypeError\<close>. The characters of the path are not touched.
\<close>

fun fspath :: "path_value \<Rightarrow> error + string" where
  "fspath (PyStr s) = Inr s"
| "fspath (PyPathLike s) = Inr s"
| "fspath PyOther = Inl TypeError"

section \<open>The library classes\<close>

text \<open>
  Modelled from the spec: the class \<^verbatim>\<open>DbtCliResource\<close> of dagster_dbt, imported by
  the module and not defined in it. The CLI resource configuration is a value object
  holding a single required field, the filesystem path to the transformation project
  root. Constructing it stores the path; the existence of the path is validated lazily,
  by the collaborator that consumes the configuration.
\<close>

record DbtCliResource =
  project_dir :: string

text \<open>
  Modelled from the spec: the use of the CLI resource by the consuming collaborator,
  which is not part of the sources. It fails with a configuration error if the project
  directory path does not exist or is not readable at resolution time. The file system
  is the set of paths of the existing, readable directories.
\<close>

definition resolve_project_dir :: "string set \<Rightarrow> DbtCliResource \<Rightarrow> error + string" where
  "resolve_project_dir fs r =
     (if project_dir r \<in> fs then Inr (project_dir r) else Inl ConfigurationError)"

text \<open>
  The registration object: the three keyword arguments of \<^verbatim>\<open>Definitions\<close>. The
  resources are a Python \<^verbatim>\<open>dict\<close>: an association list in insertion order whose keys
  are distinct. Schedules are opaque to this layer, hence a type parameter.
\<close>

record 's Definitions =
  assets :: "asset_definition list"
  schedules :: "'s list"
  resources :: "(string, DbtCliResource) alist"

text \<open>
  Modelled from the spec: the constructor of the class \<^verbatim>\<open>Definitions\<close> of dagster,
  imported by the module and not defined in it. It aggregates the three collections into
  one registration object, and fails with a naming-collision error if two asset
  definitions share a name.
\<close>

definition Definitions_new ::
  "asset_definition list \<Rightarrow> 's list \<Rightarrow> (string, DbtCliResource) alist \<Rightarrow> error + 's Definitions"
where
  "Definitions_new as ss rs =
     (if distinct (map asset_name as)
      then Inr \<lparr>assets = as, schedules = ss, resources = rs\<rparr>
      else Inl NamingCollision)"

section \<open>The module\<close>

text \<open>
  The right-hand side of the assignment. Python evaluates the arguments first, so a
  \<^verbatim>\<open>TypeError\<close> of \<^verbatim>\<open>os.fspath\<close> is raised before \<^verbatim>\<open>Definitions\<close> is called.
  The dict display \<^verbatim>\<open>{"dbt": ...}\<close> stores one entry into an empty dict.
\<close>

definition defs ::
  "asset_definition \<Rightarrow> asset_definition \<Rightarrow> 's list \<Rightarrow> path_value \<Rightarrow> error + 's Definitions"
where
  "defs dbtlearn_dbt_assets dbtlearn_partitioned_dbt_assets schedules_list dbt_project_dir =
     (case fspath dbt_project_dir of
        Inl e \<Rightarrow> Inl e
      | Inr p \<Rightarrow>
          Definitions_new
            [dbtlearn_dbt_assets, dbtlearn_partitioned_dbt_assets]
            schedules_list
            (DAList.update ''dbt'' \<lparr>project_dir = p\<rparr> DAList.empty))"

text \<open>The names of the resources of a registration object, in insertion order.\<close>

definition resource_keys :: "'s Definitions \<Rightarrow> string list" where
  "resource_keys d = map fst (DAList.impl_of (resources d))"

text \<open>
  The module as a program: the counter \<open>pc\<close> is the number of top-level statements
  already executed (the module has one), and \<open>defs_global\<close> is the module global
  \<^verbatim>\<open>defs\<close>, unbound until the assignment has run. An exception raised by the right-hand
  side leaves the assignment undone and ends the execution.
\<close>

record 's module_state =
  pc :: nat
  defs_global :: "'s Definitions option"

definition unconstructed :: "'s module_state" where
  "unconstructed = \<lparr>pc = 0, defs_global = None\<rparr>"

definition exec_module ::
  "asset_definition \<Rightarrow> asset_definition \<Rightarrow> 's list \<Rightarrow> path_value \<Rightarrow>
   's module_state \<Rightarrow> error + 's module_state"
where
  "exec_module a b ss p s =
     (if pc s = 0
      then (case defs a b ss p of
              Inl e \<Rightarrow> Inl e
            | Inr d \<Rightarrow> Inr (s\<lparr>pc := 1, defs_global := Some d\<rparr>))
      else Inr s)"

section \<open>Helper facts\<close>

lemma impl_of_dbt_dict:
  "DAList.impl_of (DAList.update ''dbt'' r DAList.empty) = [(''dbt'', r)]"
  by (simp add: DAList.update.rep_eq DAList.empty.rep_eq)

lemma defs_Inr_iff:
  "defs a b ss p = Inr d \<longleftrightarrow>
     (\<exists>s. fspath p = Inr s \<and> asset_name a \<noteq> asset_name b \<and>
          d = \<lparr>assets = [a, b], schedules = ss,
               resources = DAList.update ''dbt'' \<lparr>project_dir = s\<rparr> DAList.empty\<rparr>)"
  by (auto simp: defs_def Definitions_new_def split: sum.splits)

lemma resource_keys_defs:
  "defs a b ss p = Inr d \<Longrightarrow> resource_keys d = [''dbt'']"
  by (auto simp: defs_Inr_iff resource_keys_def impl_of_dbt_dict)

section \<open>The scenario of the module\<close>


section \<open>Mixed assets, schedules and the one resource\<close>

text \<open>
  Claim C6. Given an unpartitioned and a partitioned asset definition (of different
  names), a schedule sequence and a project directory that \<^verbatim>\<open>os.fspath\<close> accepts, the
  module produces one registration object: its asset sequence is the two definitions,
  its schedules are the given ones, and its resource mapping has exactly the key
  \<^verbatim>\<open>dbt\<close>, bound to a CLI resource configuration.
\<close>

theorem mixed_assets_one_registration:
  assumes "\<not> is_partitioned a" and "is_partitioned b"
    and "asset_name a \<noteq> asset_name b" and "fspath p = Inr s"
  shows "\<exists>d. defs a b ss p = Inr d \<and> assets d = [a, b] \<and> schedules d = ss
            \<and> resource_keys d = [''dbt'']
            \<and> DAList.lookup (resources d) ''dbt'' = Some \<lparr>project_dir = s\<rparr>"
  using assms(3,4)
  by (simp add: defs_def Definitions_new_def resource_keys_def impl_of_dbt_dict)

theorem mixed_assets_one_registration_witness:
  "\<exists>d. defs \<lparr>asset_name = ''listings'', partitions_def = None\<rparr>
            \<lparr>asset_name = ''reviews'', partitions_def = Some ''daily''\<rparr>
            [''every_day'', ''every_hour''] (PyPathLike ''/srv/dbtlearn'') = Inr d
     \<and> assets d = [\<lparr>asset_name = ''listings'', partitions_def = None\<rparr>,
                    \<lparr>asset_name = ''reviews'', partitions_def = Some ''daily''\<rparr>]
     \<and> schedules d = [''every_day'', ''every_hour'']
     \<and> resource_keys d = [''dbt'']
     \<and> DAList.lookup (resources d) ''dbt'' = Some \<lparr>project_dir = ''/srv/dbtlearn''\<rparr>"
  using mixed_assets_one_registration
    [of "\<lparr>asset_name = ''listings'', partitions_def = None\<rparr>"
        "\<lparr>asset_name = ''reviews'', partitions_def = Some ''daily''\<rparr>"
        "PyPathLike ''/srv/dbtlearn''" "''/srv/dbtlearn''"
        "[''every_day'', ''every_hour'']"]
  by (simp add: is_partitioned_def)

text \<open>
  Claim C7. With no schedule at all the module still produces a registration object,
  and that object has no schedule.
\<close>

theorem empty_schedules_accepted:
  assumes "asset_name a \<noteq> asset_name b" and "fspath p = Inr s"
  shows "\<exists>d. defs a b [] p = Inr d \<and> schedules d = [] \<and> length (schedules d) = 0"
  using assms by (simp add: defs_def Definitions_new_def)

theorem empty_schedules_accepted_witness:
  "\<exists>d::string Definitions.
     defs \<lparr>asset_name = ''A'', partitions_def = None\<rparr>
          \<lparr>asset_name = ''B'', partitions_def = Some ''date''\<rparr> [] (PyStr ''/proj'') = Inr d
     \<and> schedules d = [] \<and> length (schedules d) = 0"
  using empty_schedules_accepted
    [of "\<lparr>asset_name = ''A'', partitions_def = None\<rparr>"
        "\<lparr>asset_name = ''B'', partitions_def = Some ''date''\<rparr>"
        "PyStr ''/proj''" "''/proj''"]
  by simp

section \<open>The project directory\<close>

text \<open>
  Claim C10. The module applies \<^verbatim>\<open>os.fspath\<close> to the project directory and
  nothing else. Whenever the two asset names differ and \<^verbatim>\<open>os.fspath\<close> accepts the
  value, the registration object is built and the CLI resource configuration under
  \<^verbatim>\<open>dbt\<close> holds exactly the text \<^verbatim>\<open>os.fspath\<close> returned. In particular any
  text at all, given as a \<^verbatim>\<open>str\<close> or as a path-like object, is accepted and
  arrives unchanged: no path is refused for being relative or for naming nothing that
  exists, and none is rewritten. Conversely, whatever object the module builds stores a
  result of \<^verbatim>\<open>os.fspath\<close>.
\<close>

theorem project_dir_is_fspath_verbatim:
  "(asset_name a \<noteq> asset_name b \<and> fspath p = Inr s \<longrightarrow>
      (\<exists>d. defs a b ss p = Inr d
           \<and> DAList.impl_of (resources d) = [(''dbt'', \<lparr>project_dir = s\<rparr>)]
           \<and> DAList.lookup (resources d) ''dbt'' = Some \<lparr>project_dir = s\<rparr>))
   \<and> (asset_name a \<noteq> asset_name b \<longrightarrow>
      (\<exists>d. defs a b ss (PyStr t) = Inr d
           \<and> DAList.lookup (resources d) ''dbt'' = Some \<lparr>project_dir = t\<rparr>)
      \<and> (\<exists>d. defs a b ss (PyPathLike t) = Inr d
           \<and> DAList.lookup (resources d) ''dbt'' = Some \<lparr>project_dir = t\<rparr>))
   \<and> (\<forall>d. defs a b ss p = Inr d \<longrightarrow>
      (\<exists>s'. fspath p = Inr s'
           \<and> DAList.impl_of (resources d) = [(''dbt'', \<lparr>project_dir = s'\<rparr>)]))"
  by (auto simp: defs_Inr_iff impl_of_dbt_dict)

theorem project_dir_is_fspath_verbatim_witness:
  "\<exists>d. defs \<lparr>asset_name = ''A'', partitions_def = None\<rparr>
            \<lparr>asset_name = ''B'', partitions_def = Some ''date''\<rparr>
            [''S1''] (PyStr ''../no/such dir/./'') = Inr d
      \<and> DAList.lookup (resources d) ''dbt'' = Some \<lparr>project_dir = ''../no/such dir/./''\<rparr>"
  using project_dir_is_fspath_verbatim
    [where a = "\<lparr>asset_name = ''A'', partitions_def = None\<rparr>"
       and b = "\<lparr>asset_name = ''B'', partitions_def = Some ''date''\<rparr>"
       and ss = "[''S1'']" and p = "PyStr ''../no/such dir/./''"
       and s = "''../no/such dir/./''" and t = "''../no/such dir/./''"]
  by auto

section \<open>The constructor of the registration object\<close>

text \<open>
  Claim C2. Whenever the asset sequence is not empty and its names are pairwise
  different, the constructor succeeds for any schedules and any resource mapping, and the
  registration object holds the very same assets, as many as were given. For the module
  this means: two assets of different names and a project directory that
  \<^verbatim>\<open>os.fspath\<close> accepts give a registration object of two assets.
\<close>

theorem assembly_keeps_every_asset:
  "(as \<noteq> [] \<and> distinct (map asset_name as) \<longrightarrow>
      (\<exists>d. Definitions_new as ss rs = Inr d \<and> assets d = as
           \<and> length (assets d) = length as \<and> card (set (assets d)) = card (set as)))
   \<and> (asset_name a \<noteq> asset_name b \<and> fspath p = Inr s \<longrightarrow>
      (\<exists>d. defs a b ss' p = Inr d \<and> length (assets d) = length [a, b]))"
  by (simp add: defs_def Definitions_new_def)

theorem assembly_keeps_every_asset_witness:
  "(\<exists>d. Definitions_new
           [\<lparr>asset_name = ''A'', partitions_def = None\<rparr>,
            \<lparr>asset_name = ''B'', partitions_def = Some ''date''\<rparr>,
            \<lparr>asset_name = ''C'', partitions_def = None\<rparr>]
           [''S1''] DAList.empty = Inr d
        \<and> length (assets d) = 3)
   \<and> (\<exists>d. defs \<lparr>asset_name = ''A'', partitions_def = None\<rparr>
                \<lparr>asset_name = ''B'', partitions_def = Some ''date''\<rparr>
                [''S1''] (PyStr ''/proj'') = Inr d
        \<and> length (assets d) = 2)"
  using assembly_keeps_every_asset
    [of "[\<lparr>asset_name = ''A'', partitions_def = None\<rparr>,
          \<lparr>asset_name = ''B'', partitions_def = Some ''date''\<rparr>,
          \<lparr>asset_name = ''C'', partitions_def = None\<rparr>]"
        "[''S1'']" DAList.empty
        "\<lparr>asset_name = ''A'', partitions_def = None\<rparr>"
        "\<lparr>asset_name = ''B'', partitions_def = Some ''date''\<rparr>"
        "PyStr ''/proj''" "''/proj''" "[''S1'']"]
  by auto

text \<open>
  Claim C3. If the asset sequence holds, at two different positions, two asset
  definitions of the same name, the constructor fails with the naming-collision error:
  it returns no registration object, so none of the two is dropped or merged. The module
  does so when its two assets share a name.
\<close>

theorem same_name_is_naming_collision:
  "(i < j \<and> j < length as \<and> asset_name (as ! i) = asset_name (as ! j) \<longrightarrow>
      Definitions_new as ss rs = Inl NamingCollision)
   \<and> (asset_name a = asset_name b \<and> fspath p = Inr s \<longrightarrow>
      defs a b ss' p = Inl NamingCollision)"
proof (intro conjI impI)
  assume h: "i < j \<and> j < length as \<and> asset_name (as ! i) = asset_name (as ! j)"
  then have "i < length (map asset_name as)" and "j < length (map asset_name as)"
    and "i \<noteq> j" and "map asset_name as ! i = map asset_name as ! j"
    by simp_all
  then have "\<not> distinct (map asset_name as)"
    using nth_eq_iff_index_eq by blast
  then show "Definitions_new as ss rs = Inl NamingCollision"
    by (simp add: Definitions_new_def)
next
  assume "asset_name a = asset_name b \<and> fspath p = Inr s"
  then show "defs a b ss' p = Inl NamingCollision"
    by (simp add: defs_def Definitions_new_def)
qed

theorem same_name_is_naming_collision_witness:
  "Definitions_new
     [\<lparr>asset_name = ''A'', partitions_def = None\<rparr>,
      \<lparr>asset_name = ''B'', partitions_def = None\<rparr>,
      \<lparr>asset_name = ''A'', partitions_def = Some ''date''\<rparr>]
     [''S1''] DAList.empty = Inl NamingCollision
   \<and> defs \<lparr>asset_name = ''A'', partitions_def = None\<rparr>
          \<lparr>asset_name = ''A'', partitions_def = Some ''date''\<rparr>
          [''S1''] (PyStr ''/proj'') = Inl NamingCollision"
  using same_name_is_naming_collision
    [of 0 2 "[\<lparr>asset_name = ''A'', partitions_def = None\<rparr>,
              \<lparr>asset_name = ''B'', partitions_def = None\<rparr>,
              \<lparr>asset_name = ''A'', partitions_def = Some ''date''\<rparr>]"
        "[''S1'']" DAList.empty
        "\<lparr>asset_name = ''A'', partitions_def = None\<rparr>"
        "\<lparr>asset_name = ''A'', partitions_def = Some ''date''\<rparr>"
        "PyStr ''/proj''" "''/proj''" "[''S1'']"]
  by simp

section \<open>Determinism\<close>

text \<open>
  Claim C4. The logical content of the registration object is fixed by the inputs of the
  module: the asset names are those of the two given assets, in order, the schedule set
  is that of the given schedules, and the resource keys are \<^verbatim>\<open>dbt\<close> alone. Hence
  any two registration objects assembled from the same inputs have the same asset names,
  the same schedule set and the same resource keys; and from two assets of different
  names and a project directory that \<^verbatim>\<open>os.fspath\<close> accepts such an object is
  assembled.
\<close>

theorem assembly_deterministic:
  "(asset_name a \<noteq> asset_name b \<and> fspath p = Inr s \<longrightarrow> (\<exists>d. defs a b ss p = Inr d))
   \<and> (\<forall>d1 d2. defs a b ss p = Inr d1 \<and> defs a b ss p = Inr d2 \<longrightarrow>
        map asset_name (assets d1) = [asset_name a, asset_name b]
      \<and> map asset_name (assets d2) = map asset_name (assets d1)
      \<and> set (schedules d1) = set ss
      \<and> set (schedules d2) = set (schedules d1)
      \<and> resource_keys d1 = [''dbt'']
      \<and> resource_keys d2 = resource_keys d1)"
  by (auto simp: defs_Inr_iff resource_keys_def impl_of_dbt_dict)

theorem assembly_deterministic_witness:
  "\<exists>d. defs \<lparr>asset_name = ''A'', partitions_def = None\<rparr>
            \<lparr>asset_name = ''B'', partitions_def = Some ''date''\<rparr>
            [''S1'', ''S2'', ''S1''] (PyStr ''/proj'') = Inr d
      \<and> map asset_name (assets d) = [''A'', ''B'']
      \<and> set (schedules d) = {''S1'', ''S2''}
      \<and> resource_keys d = [''dbt'']"
proof -
  note content = assembly_deterministic
    [where a = "\<lparr>asset_name = ''A'', partitions_def = None\<rparr>"
       and b = "\<lparr>asset_name = ''B'', partitions_def = Some ''date''\<rparr>"
       and ss = "[''S1'', ''S2'', ''S1'']" and p = "PyStr ''/proj''" and s = "''/proj''"]
  from content obtain d where run:
    "defs \<lparr>asset_name = ''A'', partitions_def = None\<rparr>
          \<lparr>asset_name = ''B'', partitions_def = Some ''date''\<rparr>
          [''S1'', ''S2'', ''S1''] (PyStr ''/proj'') = Inr d"
    by auto
  from content run have "map asset_name (assets d) = [''A'', ''B'']"
    and "set (schedules d) = set [''S1'', ''S2'', ''S1'']"
    and "resource_keys d = [''dbt'']"
    by auto
  with run show ?thesis by auto
qed

section \<open>A project directory that does not exist\<close>

text \<open>
  Claim C5. The module's expression does not consult the file system: when the project
  directory names nothing that exists, the registration object is built all the same,
  with the path stored under \<^verbatim>\<open>dbt\<close>, and the configuration error appears only
  when the consuming collaborator resolves the CLI resource.
\<close>

theorem missing_project_dir_fails_at_use:
  assumes "fspath p = Inr s" and "s \<notin> fs" and "asset_name a \<noteq> asset_name b"
  shows "\<exists>d r. defs a b ss p = Inr d
              \<and> DAList.lookup (resources d) ''dbt'' = Some r
              \<and> project_dir r = s
              \<and> resolve_project_dir fs r = Inl ConfigurationError"
  using assms by (simp add: defs_def Definitions_new_def resolve_project_dir_def)

theorem missing_project_dir_fails_at_use_witness:
  "\<exists>d r. defs \<lparr>asset_name = ''A'', partitions_def = None\<rparr>
              \<lparr>asset_name = ''B'', partitions_def = Some ''date''\<rparr>
              [''S1''] (PyStr ''/nowhere'') = Inr d
        \<and> DAList.lookup (resources d) ''dbt'' = Some r
        \<and> project_dir r = ''/nowhere''
        \<and> resolve_project_dir {''/proj''} r = Inl ConfigurationError"
  using missing_project_dir_fails_at_use
    [of "PyStr ''/nowhere''" "''/nowhere''" "{''/proj''}"
        "\<lparr>asset_name = ''A'', partitions_def = None\<rparr>"
        "\<lparr>asset_name = ''B'', partitions_def = Some ''date''\<rparr>"
        "[''S1'']"]
  by simp

section \<open>The module as a program\<close>

lemma exec_module_unconstructed_Inr:
  "exec_module a b ss p unconstructed = Inr s \<longleftrightarrow>
     (\<exists>d. defs a b ss p = Inr d \<and> s = \<lparr>pc = 1, defs_global = Some d\<rparr>)"
  by (auto simp: exec_module_def unconstructed_def split: sum.splits)

lemma exec_module_constructed:
  "pc st \<noteq> 0 \<Longrightarrow> exec_module a b ss p st = Inr st"
  by (simp add: exec_module_def)

text \<open>
  Claim C8. A registration object that the constructor returns has pairwise different
  asset names and pairwise different resource names. Once the module has bound it to
  \<^verbatim>\<open>defs\<close>, nothing this layer executes changes it: whatever the inputs, the module
  state stays the same, and with it the object and its invariant.
\<close>

theorem registration_invariant_kept:
  "(Definitions_new as ss rs = Inr d \<longrightarrow>
      distinct (map asset_name (assets d)) \<and> distinct (resource_keys d))
   \<and> (exec_module a b ss' p unconstructed = Inr st \<longrightarrow>
      (\<exists>d'. defs_global st = Some d'
          \<and> distinct (map asset_name (assets d')) \<and> distinct (resource_keys d')
          \<and> (\<forall>a' b' ss'' p'. exec_module a' b' ss'' p' st = Inr st)))"
proof (rule conjI [OF impI impI])
  assume "Definitions_new as ss rs = Inr d"
  then show "distinct (map asset_name (assets d)) \<and> distinct (resource_keys d)"
    by (auto simp: Definitions_new_def resource_keys_def split: if_splits)
next
  assume "exec_module a b ss' p unconstructed = Inr st"
  then obtain d' where run: "defs a b ss' p = Inr d'"
    and st: "st = \<lparr>pc = 1, defs_global = Some d'\<rparr>"
    by (auto simp: exec_module_unconstructed_Inr)
  from run have "distinct (map asset_name (assets d'))"
    by (auto simp: defs_Inr_iff)
  moreover have "distinct (resource_keys d')"
    by (simp add: resource_keys_def)
  moreover have "\<forall>a' b' ss'' p'. exec_module a' b' ss'' p' st = Inr st"
    by (simp add: st exec_module_constructed)
  ultimately show "\<exists>d'. defs_global st = Some d'
      \<and> distinct (map asset_name (assets d')) \<and> distinct (resource_keys d')
      \<and> (\<forall>a' b' ss'' p'. exec_module a' b' ss'' p' st = Inr st)"
    by (simp add: st)
qed

theorem registration_invariant_kept_witness:
  "distinct (map asset_name
      (assets (\<lparr>assets = [\<lparr>asset_name = ''A'', partitions_def = None\<rparr>,
                          \<lparr>asset_name = ''B'', partitions_def = Some ''date''\<rparr>],
                schedules = [''S1''],
                resources = DAList.update ''dbt'' \<lparr>project_dir = ''/proj''\<rparr> DAList.empty\<rparr>
               :: string Definitions)))
   \<and> (\<exists>st. exec_module \<lparr>asset_name = ''A'', partitions_def = None\<rparr>
                \<lparr>asset_name = ''B'', partitions_def = Some ''date''\<rparr>
                [''S1''] (PyStr ''/proj'') unconstructed = Inr st
          \<and> exec_module \<lparr>asset_name = ''A'', partitions_def = None\<rparr>
                \<lparr>asset_name = ''A'', partitions_def = None\<rparr> [] PyOther st = Inr st)"
proof -
  let ?A = "\<lparr>asset_name = ''A'', partitions_def = None\<rparr>"
  let ?B = "\<lparr>asset_name = ''B'', partitions_def = Some ''date''\<rparr>"
  let ?R = "DAList.update ''dbt'' \<lparr>project_dir = ''/proj''\<rparr> DAList.empty"
  let ?D = "\<lparr>assets = [?A, ?B], schedules = [''S1''], resources = ?R\<rparr> :: string Definitions"
  let ?st = "\<lparr>pc = 1, defs_global = Some ?D\<rparr>"
  have new: "Definitions_new [?A, ?B] [''S1''] ?R = Inr ?D"
    by (simp add: Definitions_new_def)
  have run: "exec_module ?A ?B [''S1''] (PyStr ''/proj'') unconstructed = Inr ?st"
    by (simp add: exec_module_def unconstructed_def defs_def Definitions_new_def)
  note inv = registration_invariant_kept
    [where as = "[?A, ?B]" and ss = "[''S1'']" and rs = ?R and d = ?D
       and a = ?A and b = ?B and ss' = "[''S1'']" and p = "PyStr ''/proj''" and st = ?st]
  from inv new have "distinct (map asset_name (assets ?D))"
    by blast
  moreover from inv run have "exec_module ?A ?A [] PyOther ?st = Inr ?st"
    by blast
  ultimately show ?thesis
    using run by blast
qed

text \<open>
  Claim C9. Executing the module from the state in which \<^verbatim>\<open>defs\<close> is unbound
  evaluates the expression once and has two outcomes only. Either the expression raises:
  then the execution ends with that very error, without a second attempt and without any
  module state, so no registration object can be observed. Or it returns the registration
  object: then \<^verbatim>\<open>defs\<close> is bound to that complete object (both assets, all schedules,
  the key \<^verbatim>\<open>dbt\<close>), the one statement of the module is done, and executing further
  changes nothing, whatever the inputs.
\<close>

theorem assembly_all_or_nothing:
  "(case exec_module a b ss p unconstructed of
      Inl e \<Rightarrow> defs a b ss p = Inl e
    | Inr st \<Rightarrow>
        pc st = 1
        \<and> (\<exists>d. defs_global st = Some d \<and> defs a b ss p = Inr d
               \<and> assets d = [a, b] \<and> schedules d = ss \<and> resource_keys d = [''dbt''])
        \<and> (\<forall>a' b' ss' p'. exec_module a' b' ss' p' st = Inr st))"
proof (cases "defs a b ss p")
  case (Inl e)
  then show ?thesis
    by (simp add: exec_module_def unconstructed_def)
next
  case (Inr d)
  then have run: "exec_module a b ss p unconstructed = Inr \<lparr>pc = 1, defs_global = Some d\<rparr>"
    by (simp add: exec_module_unconstructed_Inr)
  from Inr have "assets d = [a, b]" and "schedules d = ss"
    by (auto simp: defs_Inr_iff)
  moreover from Inr have "resource_keys d = [''dbt'']"
    by (rule resource_keys_defs)
  moreover have "\<forall>a' b' ss' p'.
      exec_module a' b' ss' p' \<lparr>pc = 1, defs_global = Some d\<rparr> = Inr \<lparr>pc = 1, defs_global = Some d\<rparr>"
    by (simp add: exec_module_constructed)
  ultimately show ?thesis
    using Inr by (simp add: run)
qed

theorem assembly_all_or_nothing_witness:
  "exec_module \<lparr>asset_name = ''A'', partitions_def = None\<rparr>
       \<lparr>asset_name = ''A'', partitions_def = Some ''date''\<rparr>
       [''S1''] (PyStr ''/proj'') unconstructed = Inl NamingCollision
   \<and> (\<exists>st. exec_module \<lparr>asset_name = ''A'', partitions_def = None\<rparr>
                \<lparr>asset_name = ''B'', partitions_def = Some ''date''\<rparr>
                [''S1''] (PyStr ''/proj'') unconstructed = Inr st
          \<and> pc st = 1
          \<and> exec_module \<lparr>asset_name = ''A'', partitions_def = None\<rparr>
                \<lparr>asset_name = ''A'', partitions_def = None\<rparr> [''S2''] PyOther st = Inr st)"
proof -
  let ?A = "\<lparr>asset_name = ''A'', partitions_def = None\<rparr>"
  let ?A' = "\<lparr>asset_name = ''A'', partitions_def = Some ''date''\<rparr>"
  let ?B = "\<lparr>asset_name = ''B'', partitions_def = Some ''date''\<rparr>"
  have bad: "defs ?A ?A' [''S1''] (PyStr ''/proj'') = Inl NamingCollision"
    by (simp add: defs_def Definitions_new_def)
  have good: "\<exists>d. defs ?A ?B [''S1''] (PyStr ''/proj'') = Inr d"
    by (simp add: defs_def Definitions_new_def)
  from assembly_all_or_nothing [of ?A ?A' "[''S1'']" "PyStr ''/proj''"] bad
  have "exec_module ?A ?A' [''S1''] (PyStr ''/proj'') unconstructed = Inl NamingCollision"
    by (auto split: sum.splits)
  moreover from assembly_all_or_nothing [of ?A ?B "[''S1'']" "PyStr ''/proj''"] good
  have "\<exists>st. exec_module ?A ?B [''S1''] (PyStr ''/proj'') unconstructed = Inr st
          \<and> pc st = 1 \<and> exec_module ?A ?A [''S2''] PyOther st = Inr st"
    by (auto split: sum.splits)
  ultimately show ?thesis
    by blast
qed

end
